theory Spec2Isabelle
  imports Complex_Main
begin

section \<open>GnuPlotIO: export of a 1D mesh and nodal data (src/mesh/gnuplot_io.C)\<close>

text \<open>
  Shallow embedding of \<^verbatim>\<open>GnuPlotIO::write\<close>, \<^verbatim>\<open>GnuPlotIO::write_nodal_data\<close> and
  \<^verbatim>\<open>GnuPlotIO::write_solution\<close>.

  \<^item> \<^verbatim>\<open>Real\<close> coordinates are HOL reals; how \<^verbatim>\<open>operator<<\<close> renders a \<^verbatim>\<open>Real\<close>
    or a \<^verbatim>\<open>Number\<close> is a parameter (record \<open>format\<close>), since it belongs to the
    C++ stream library and not to this file.
  \<^item> \<^verbatim>\<open>std::map<Real, std::vector<Number>>\<close> is an association list kept strictly
    ascending by key; \<^verbatim>\<open>node_map[k] = v\<close> is \<open>map_assign\<close>.
  \<^item> The two output streams are modelled by a state holding the content of every
    file and the list of paths an \<^verbatim>\<open>std::ofstream\<close> was constructed on. Text reaches
    the file as soon as it is streamed (buffering is not modelled).
  \<^item> The members of the exporter object live in the same state, so that a method
    is a function from state to outcome and state.
  \<^item> \<^verbatim>\<open>unsigned int\<close> and \<^verbatim>\<open>dof_id_type\<close> values are naturals. The counters
    (elements visited, variables) count objects held in memory and do not wrap.
    The index \<^verbatim>\<open>global_id*n_vars + c\<close> into the solution vector is a product of an
    identifier and a count, computed in fixed-width unsigned arithmetic: the model
    reduces it modulo \<open>2 ^ index_bits\<close>.
\<close>

subsection \<open>Characters that need an escape in the C++ literals\<close>

definition tab :: string where
  "tab = [CHR 0x09]"

definition newline :: string where
  "newline = [CHR 0x0A]"

definition dquote :: string where
  "dquote = [CHR 0x22]"

definition squote :: string where
  "squote = [CHR 0x27]"

definition backslash :: string where
  "backslash = [CHR 0x5C]"

subsection \<open>Streaming an unsigned integer\<close>

definition digit_char :: "nat \<Rightarrow> char" where
  "digit_char d = ''0123456789'' ! d"

function show_nat :: "nat \<Rightarrow> string" where
  "show_nat n = (if n < 10 then [digit_char n] else show_nat (n div 10) @ [digit_char (n mod 10)])"
  by pat_completeness auto
termination
  by (relation "measure (\<lambda>n. n)") auto

declare show_nat.simps [simp del]

subsection \<open>Data model\<close>

text \<open>
  How a call can end other than by returning:
  \<^item> \<open>UnsupportedGeometry\<close>: the assertion on the mesh dimension failed;
  \<^item> \<open>MissingData\<close>: the assertion on the names and solution pointers failed;
  \<^item> \<open>IoFailure p\<close>: \<^verbatim>\<open>libmesh_file_error\<close> on the script, \<^verbatim>\<open>libmesh_error\<close> on the data
    file, \<open>p\<close> being the path that did not open;
  \<^item> \<open>UndefinedRead\<close>: an unchecked \<^verbatim>\<open>operator[]\<close> or node access outside its
    range. The source has no defined behaviour there; the model stops the call.
\<close>

datatype error = UnsupportedGeometry | MissingData | IoFailure string | UndefinedRead

text \<open>
  Modelled from the spec: the macros \<^verbatim>\<open>libmesh_assert\<close> and
  \<^verbatim>\<open>libmesh_assert_equal_to\<close> are defined outside this file. A violated
  assertion is a fatal precondition failure that ends the call; \<open>kind\<close> is the
  error kind the specification gives to the violated precondition. \<open>None\<close> means
  that the assertion holds and the call goes on.
\<close>

definition libmesh_assert :: "bool \<Rightarrow> error \<Rightarrow> error option" where
  "libmesh_assert asserted kind = (if asserted then None else Some kind)"

definition libmesh_assert_equal_to :: "nat \<Rightarrow> nat \<Rightarrow> error \<Rightarrow> error option" where
  "libmesh_assert_equal_to a b kind = (if a = b then None else Some kind)"

text \<open>
  \<^verbatim>\<open>Elem\<close>: \<open>neighbor el s\<close> is the element on side \<open>s\<close> (\<open>None\<close> for \<^verbatim>\<open>NULL\<close>),
  \<open>nodes el\<close> the global ids of its local nodes, so \<^verbatim>\<open>el->n_nodes()\<close> is
  \<open>length (nodes el)\<close> and \<^verbatim>\<open>el->node(i)\<close> is \<open>nodes el ! i\<close>.
\<close>

record elem =
  neighbor :: "nat \<Rightarrow> nat option"
  nodes :: "nat list"

text \<open>
  \<^verbatim>\<open>MeshBase\<close>, as far as the exporter reads it. \<open>point m i\<close> is the x coordinate
  \<^verbatim>\<open>the_mesh.point(i)(0)\<close>; a node reached through an element,
  \<^verbatim>\<open>(*(el->get_node(i)))(0)\<close>, is the same mesh node. \<open>n_active_elem\<close> is kept
  apart from the element list, as the source queries it separately.
  \<open>index_bits\<close> is the width in bits of the unsigned type in which
  \<^verbatim>\<open>global_id*n_vars + c\<close> is computed, that is of \<^verbatim>\<open>dof_id_type\<close>, the type of the
  mesh's identifiers, or of \<^verbatim>\<open>unsigned int\<close> where that is the wider one. Both
  types are declared outside this file, so the width is a parameter.
\<close>

record mesh =
  processor_id :: nat
  mesh_dimension :: nat
  n_active_elem :: nat
  active_elements :: "elem list"
  point :: "nat \<Rightarrow> real"
  index_bits :: nat

record 'n format =
  show_real :: "real \<Rightarrow> string"
  show_number :: "'n \<Rightarrow> string"

text \<open>
  The exporter's members (\<^verbatim>\<open>_title\<close>, \<^verbatim>\<open>_grid\<close>, \<^verbatim>\<open>_png_output\<close>, \<^verbatim>\<open>axes_limits\<close>)
  and the files: \<open>files\<close> maps a path to its content, \<open>opened\<close> lists the paths
  on which an output stream was constructed, oldest first.
\<close>

record state =
  title :: string
  grid :: bool
  png_output :: bool
  axes_limits :: string
  files :: "string \<rightharpoonup> string"
  opened :: "string list"

subsection \<open>Pass 1: bounds and tick marks\<close>

definition get_node :: "elem \<Rightarrow> nat \<Rightarrow> error + nat" where
  "get_node el i = (if i < length (nodes el) then Inr (nodes el ! i) else Inl UndefinedRead)"

text \<open>
  One iteration of the first element loop. The accumulator is
  \<open>(x_min, x_max, xtics_stream, count)\<close>.
\<close>

definition scan_elem ::
  "'n format \<Rightarrow> mesh \<Rightarrow> real \<times> real \<times> string \<times> nat \<Rightarrow> elem \<Rightarrow>
   error + (real \<times> real \<times> string \<times> nat)" where
  "scan_elem fmt m acc el =
     (case acc of (x_min, x_max, xtics, count) \<Rightarrow>
        (case (if neighbor el 0 = None
               then (case get_node el 0 of
                       Inl e \<Rightarrow> Inl e
                     | Inr n0 \<Rightarrow>
                         Inr (point m n0,
                              xtics @ dquote @ dquote @ '' '' @ show_real fmt (point m n0)
                                @ '', '' @ backslash @ newline))
               else Inr (x_min, xtics)) of
           Inl e \<Rightarrow> Inl e
         | Inr (x_min1, xtics1) \<Rightarrow>
             (case get_node el 1 of
                Inl e \<Rightarrow> Inl e
              | Inr n1 \<Rightarrow>
                  Inr (x_min1,
                       (if neighbor el 1 = None then point m n1 else x_max),
                       xtics1 @ dquote @ dquote @ '' '' @ show_real fmt (point m n1)
                         @ (if count + 1 \<noteq> n_active_elem m
                            then '', '' @ backslash @ newline else ''''),
                       count + 1))))"

fun scan_elems ::
  "'n format \<Rightarrow> mesh \<Rightarrow> real \<times> real \<times> string \<times> nat \<Rightarrow> elem list \<Rightarrow>
   error + (real \<times> real \<times> string \<times> nat)" where
  "scan_elems fmt m acc [] = Inr acc"
| "scan_elems fmt m acc (el # els) =
     (case scan_elem fmt m acc el of
        Inl e \<Rightarrow> Inl e
      | Inr acc' \<Rightarrow> scan_elems fmt m acc' els)"

subsection \<open>Pass 2: the coordinate table\<close>

text \<open>\<^verbatim>\<open>node_map[k] = v\<close> on a map iterated in ascending key order.\<close>

fun map_assign :: "real \<Rightarrow> 'v \<Rightarrow> (real \<times> 'v) list \<Rightarrow> (real \<times> 'v) list" where
  "map_assign k v [] = [(k, v)]"
| "map_assign k v (entry # rest) =
     (if fst entry < k then entry # map_assign k v rest
      else if k < fst entry then (k, v) # entry # rest
      else (k, v) # rest)"

text \<open>
  The index \<^verbatim>\<open>global_id*n_vars + c\<close>, as unsigned arithmetic of \<open>bits\<close> bits
  computes it: the exact value reduced modulo \<open>2 ^ bits\<close>.
\<close>

definition soln_index :: "nat \<Rightarrow> nat \<Rightarrow> nat \<Rightarrow> nat \<Rightarrow> nat" where
  "soln_index bits global_id n_vars c = (global_id * n_vars + c) mod 2 ^ bits"

text \<open>
  The inner loop \<^verbatim>\<open>values.push_back((*soln)[global_id*n_vars + c])\<close> over the
  variable indices \<open>cs\<close> still to visit. The vector is read at the wrapped
  index; a wrapped index outside the vector is an undefined read.
\<close>

fun push_values ::
  "nat \<Rightarrow> 'n list \<Rightarrow> nat \<Rightarrow> nat \<Rightarrow> nat list \<Rightarrow> 'n list \<Rightarrow> error + 'n list" where
  "push_values bits soln global_id n_vars [] values = Inr values"
| "push_values bits soln global_id n_vars (c # cs) values =
     (if soln_index bits global_id n_vars c < length soln
      then push_values bits soln global_id n_vars cs
             (values @ [soln ! soln_index bits global_id n_vars c])
      else Inl UndefinedRead)"

text \<open>The loop over the local nodes of one element, given as their global ids.\<close>

fun visit_nodes ::
  "mesh \<Rightarrow> 'n list \<Rightarrow> nat \<Rightarrow> nat list \<Rightarrow> (real \<times> 'n list) list \<Rightarrow>
   error + (real \<times> 'n list) list" where
  "visit_nodes m soln n_vars [] node_map = Inr node_map"
| "visit_nodes m soln n_vars (global_id # ids) node_map =
     (case push_values (index_bits m) soln global_id n_vars [0..<n_vars] [] of
        Inl e \<Rightarrow> Inl e
      | Inr values \<Rightarrow>
          visit_nodes m soln n_vars ids (map_assign (point m global_id) values node_map))"

fun visit_elems ::
  "mesh \<Rightarrow> 'n list \<Rightarrow> nat \<Rightarrow> elem list \<Rightarrow> (real \<times> 'n list) list \<Rightarrow>
   error + (real \<times> 'n list) list" where
  "visit_elems m soln n_vars [] node_map = Inr node_map"
| "visit_elems m soln n_vars (el # els) node_map =
     (case visit_nodes m soln n_vars (nodes el) node_map of
        Inl e \<Rightarrow> Inl e
      | Inr node_map' \<Rightarrow> visit_elems m soln n_vars els node_map')"

subsection \<open>The text of the two artifacts\<close>

definition script_header :: "string \<Rightarrow> string \<Rightarrow> string" where
  "script_header fname ttl =
     ''# This file was generated by gnuplot_io.C'' @ newline
     @ ''# Stores 1D solution data in GNUplot format'' @ newline
     @ ''# Execute this by loading gnuplot and typing ''
     @ dquote @ ''call '' @ squote @ fname @ squote @ dquote @ newline
     @ ''reset'' @ newline
     @ ''set title '' @ dquote @ ttl @ dquote @ newline
     @ ''set xlabel '' @ dquote @ ''x'' @ dquote @ newline
     @ ''set xtics nomirror'' @ newline"

definition xrange_directive :: "'n format \<Rightarrow> real \<Rightarrow> real \<Rightarrow> string" where
  "xrange_directive fmt x_min x_max =
     ''set xrange ['' @ show_real fmt x_min @ '':'' @ show_real fmt x_max @ '']'' @ newline"

definition grid_directives :: "bool \<Rightarrow> string \<Rightarrow> string" where
  "grid_directives g xtics =
     (if g then ''set x2tics ('' @ xtics @ '')'' @ newline
                @ ''set grid noxtics noytics x2tics'' @ newline
      else '''')"

definition png_directives :: "bool \<Rightarrow> string \<Rightarrow> string" where
  "png_directives p fname =
     (if p then ''set terminal png'' @ newline
                @ ''set output '' @ dquote @ fname @ ''.png'' @ dquote @ newline
      else '''')"

text \<open>The first clause of the plot command; it reads \<^verbatim>\<open>(*names)[0]\<close> unchecked.\<close>

definition plot_first :: "string \<Rightarrow> string \<Rightarrow> string list \<Rightarrow> error + string" where
  "plot_first limits data_file_name names =
     (if 0 < length names
      then Inr (''plot '' @ limits @ '' '' @ dquote @ data_file_name @ dquote
                @ '' using 1:2 title '' @ dquote @ names ! 0 @ dquote @ '' with lines'')
      else Inl UndefinedRead)"

text \<open>The loop \<^verbatim>\<open>for (i = 1; i < n_vars; i++)\<close> over the indices \<open>is\<close> still to visit.\<close>

fun plot_rest :: "string \<Rightarrow> string list \<Rightarrow> nat list \<Rightarrow> string" where
  "plot_rest data_file_name names [] = ''''"
| "plot_rest data_file_name names (i # is) =
     '', '' @ backslash @ newline @ dquote @ data_file_name @ dquote
     @ '' using 1:'' @ show_nat (i + 2)
     @ '' title '' @ dquote @ names ! i @ dquote @ '' with lines''
     @ plot_rest data_file_name names is"

definition plot_command :: "string \<Rightarrow> string \<Rightarrow> string list \<Rightarrow> error + string" where
  "plot_command limits data_file_name names =
     (case plot_first limits data_file_name names of
        Inl e \<Rightarrow> Inl e
      | Inr first \<Rightarrow>
          Inr (first @ (if length names > 1
                        then plot_rest data_file_name names [1..<length names]
                        else '''')))"

text \<open>One line of the data file, and the loop over the table.\<close>

definition data_row :: "'n format \<Rightarrow> real \<times> 'n list \<Rightarrow> string" where
  "data_row fmt kvp =
     show_real fmt (fst kvp) @ tab
     @ concat (map (\<lambda>v. show_number fmt v @ tab) (snd kvp))
     @ newline"

definition data_rows :: "'n format \<Rightarrow> (real \<times> 'n list) list \<Rightarrow> string" where
  "data_rows fmt node_map = concat (map (data_row fmt) node_map)"

subsection \<open>The three operations\<close>

definition open_stream :: "string \<Rightarrow> state \<Rightarrow> state" where
  "open_stream path st = st\<lparr>opened := opened st @ [path]\<rparr>"

definition put_file :: "string \<Rightarrow> string \<Rightarrow> state \<Rightarrow> state" where
  "put_file path text st = st\<lparr>files := (files st)(path \<mapsto> text)\<rparr>"

text \<open>
  \<open>can_open p\<close> says whether constructing an \<^verbatim>\<open>std::ofstream\<close> on \<open>p\<close> yields a good
  stream. A good stream creates or truncates the file. The result is the error
  that ended the call (\<open>None\<close> when it returned) and the state left behind.
  \<open>the names\<close> and \<open>the soln\<close> are \<^verbatim>\<open>*names\<close> and \<^verbatim>\<open>*soln\<close>, read only after
  the assertion that neither pointer is null.
\<close>

definition write_solution ::
  "'n format \<Rightarrow> (string \<Rightarrow> bool) \<Rightarrow> mesh \<Rightarrow> string \<Rightarrow> 'n list option \<Rightarrow>
   string list option \<Rightarrow> state \<Rightarrow> error option \<times> state" where
  "write_solution fmt can_open m fname soln names st =
     (if processor_id m = 0 then
        (let data_file_name = fname @ ''_data'' in
         case libmesh_assert_equal_to (mesh_dimension m) 1 UnsupportedGeometry of
           Some e \<Rightarrow> (Some e, st)
         | None \<Rightarrow>
         (case libmesh_assert (names \<noteq> None \<and> soln \<noteq> None) MissingData of
            Some e \<Rightarrow> (Some e, st)
          | None \<Rightarrow>
          (let st1 = open_stream fname st in
           if \<not> can_open fname then (Some (IoFailure fname), st1)
           else
             (let n_vars = length (the names);
                  out1 = script_header fname (title st)
              in case scan_elems fmt m (0, 0, '''', 0) (active_elements m) of
                   Inl e \<Rightarrow> (Some e, put_file fname out1 st1)
                 | Inr (x_min, x_max, xtics, count) \<Rightarrow>
               (let out2 = out1 @ xrange_directive fmt x_min x_max
                           @ grid_directives (grid st) xtics
                           @ png_directives (png_output st) fname
                in case plot_command (axes_limits st) data_file_name (the names) of
                     Inl e \<Rightarrow> (Some e, put_file fname out2 st1)
                   | Inr plot \<Rightarrow>
                 (let st2 = open_stream data_file_name (put_file fname (out2 @ plot) st1) in
                  if \<not> can_open data_file_name then (Some (IoFailure data_file_name), st2)
                  else
                    (case visit_elems m (the soln) n_vars (active_elements m) [] of
                       Inl e \<Rightarrow> (Some e, put_file data_file_name '''' st2)
                     | Inr node_map \<Rightarrow>
                         (None, put_file data_file_name (data_rows fmt node_map) st2))))))))
      else (None, st))"

definition write_nodal_data ::
  "'n format \<Rightarrow> (string \<Rightarrow> bool) \<Rightarrow> mesh \<Rightarrow> string \<Rightarrow> 'n list \<Rightarrow> string list \<Rightarrow>
   state \<Rightarrow> error option \<times> state" where
  "write_nodal_data fmt can_open m fname soln names st =
     write_solution fmt can_open m fname (Some soln) (Some names) st"

text \<open>
  \<^verbatim>\<open>GnuPlotIO::write\<close> (named \<open>write_op\<close>, as \<open>write\<close> is reserved) calls
  \<^verbatim>\<open>write_solution(fname)\<close>: both pointer arguments take their default, the null
  pointer.
\<close>

definition write_op :: "'n format \<Rightarrow> (string \<Rightarrow> bool) \<Rightarrow> mesh \<Rightarrow> string \<Rightarrow> state \<Rightarrow> error option \<times> state" where
  "write_op fmt can_open m fname st = write_solution fmt can_open m fname None None st"

subsection \<open>Notions used to state the properties\<close>

text \<open>The global ids of all nodes of the given elements.\<close>

definition node_ids :: "elem list \<Rightarrow> nat set" where
  "node_ids els = (\<Union>el\<in>set els. set (nodes el))"

text \<open>
  The table entry of node \<open>gid\<close>: its coordinate and the \<open>n_vars\<close> values read
  for it from the flat solution vector.
\<close>

definition node_entry :: "mesh \<Rightarrow> 'n list \<Rightarrow> nat \<Rightarrow> nat \<Rightarrow> real \<times> 'n list" where
  "node_entry m soln n_vars gid =
     (point m gid,
      map (\<lambda>c. soln ! ((gid * n_vars + c) mod 2 ^ index_bits m)) [0..<n_vars])"

text \<open>Every index read for node \<open>gid\<close> lies inside the solution vector.\<close>

definition addressable :: "mesh \<Rightarrow> 'n list \<Rightarrow> nat \<Rightarrow> nat \<Rightarrow> bool" where
  "addressable m soln n_vars gid =
     (\<forall>c<n_vars. (gid * n_vars + c) mod 2 ^ index_bits m < length soln)"

text \<open>Strings joined by a separator (none after the last one).\<close>

fun join_with :: "string \<Rightarrow> string list \<Rightarrow> string" where
  "join_with sep [] = ''''"
| "join_with sep [x] = x"
| "join_with sep (x # y # ys) = x @ sep @ join_with sep (y # ys)"

text \<open>
  The plot command as the specification words it: one trace reference per
  variable, the variable of index \<open>i\<close> (from 0) reading column \<open>i + 2\<close> of the
  data file and labelled with \<open>names ! i\<close>, the references chained by a comma
  and a line continuation.
\<close>

definition trace_reference :: "string \<Rightarrow> nat \<Rightarrow> string \<Rightarrow> string" where
  "trace_reference data_file_name col name =
     dquote @ data_file_name @ dquote @ '' using 1:'' @ show_nat col
     @ '' title '' @ dquote @ name @ dquote @ '' with lines''"

definition plot_spec :: "string \<Rightarrow> string \<Rightarrow> string list \<Rightarrow> string" where
  "plot_spec limits data_file_name names =
     ''plot '' @ limits @ '' ''
     @ join_with ('', '' @ backslash @ newline)
         (map (\<lambda>i. trace_reference data_file_name (i + 2) (names ! i)) [0..<length names])"

text \<open>
  A data line as the specification words it: the fields separated by tabs, then
  a newline.
\<close>

definition tsv_row :: "'n format \<Rightarrow> real \<times> 'n list \<Rightarrow> string" where
  "tsv_row fmt kvp =
     join_with tab (show_real fmt (fst kvp) # map (show_number fmt) (snd kvp)) @ newline"

subsection \<open>The worked example\<close>

text \<open>
  Three unit elements [0,1], [1,2], [2,3] on nodes 0..3, node \<open>i\<close> at
  \<open>x = i\<close>, with indices of 32 bits. The samples are whole numbers below \<open>10^6\<close>; a C++ stream in its
  default format prints such a value as its decimal digits, which is what
  \<open>show_whole\<close> does.
\<close>

definition show_whole :: "real \<Rightarrow> string" where
  "show_whole x = (if x < 0 then ''-'' else '''') @ show_nat (nat \<lfloor>\<bar>x\<bar>\<rfloor>)"

definition example_format :: "real format" where
  "example_format = \<lparr>show_real = show_whole, show_number = show_whole\<rparr>"

definition example_elements :: "elem list" where
  "example_elements =
     [\<lparr>neighbor = (\<lambda>s. if s = 0 then None else Some 1), nodes = [0, 1]\<rparr>,
      \<lparr>neighbor = (\<lambda>s. if s = 0 then Some 0 else Some 2), nodes = [1, 2]\<rparr>,
      \<lparr>neighbor = (\<lambda>s. if s = 0 then Some 1 else None), nodes = [2, 3]\<rparr>]"

definition example_mesh :: mesh where
  "example_mesh =
     \<lparr>processor_id = 0, mesh_dimension = 1, n_active_elem = 3,
      active_elements = example_elements, point = real, index_bits = 32\<rparr>"

definition empty_mesh :: mesh where
  "empty_mesh =
     \<lparr>processor_id = 0, mesh_dimension = 1, n_active_elem = 0,
      active_elements = [], point = real, index_bits = 32\<rparr>"

definition every_path :: "string \<Rightarrow> bool" where
  "every_path p = True"

definition example_state :: state where
  "example_state =
     \<lparr>title = ''solution'', grid = False, png_output = False, axes_limits = '''',
      files = Map.empty, opened = []\<rparr>"

text \<open>A second solution vector: two variables per node, \<open>u\<close> then \<open>v\<close>.\<close>

definition two_var_soln :: "real list" where
  "two_var_soln = [0, 5, 1, 6, 4, 7, 9, 8]"

text \<open>
  One element whose right node has the identifier \<open>2 ^ 31\<close>: with two
  variables and indices of 32 bits, the index of its first value is
  \<open>2 ^ 32\<close>, which wraps to 0.
\<close>

definition wrap_mesh :: mesh where
  "wrap_mesh =
     \<lparr>processor_id = 0, mesh_dimension = 1, n_active_elem = 1,
      active_elements = [\<lparr>neighbor = (\<lambda>s. None), nodes = [0, 2147483648]\<rparr>],
      point = real, index_bits = 32\<rparr>"

section \<open>Auxiliary facts\<close>

subsection \<open>The coordinate table\<close>

lemma keys_map_assign: "fst ` set (map_assign k v t) = insert k (fst ` set t)"
  by (induction t) auto

lemma sorted_map_assign:
  "sorted_wrt (<) (map fst t) \<Longrightarrow> sorted_wrt (<) (map fst (map_assign k v t))"
proof (induction t)
  case Nil
  then show ?case by simp
next
  case (Cons entry rest)
  have "fst ` set (map_assign k v rest) = insert k (fst ` set rest)"
    by (rule keys_map_assign)
  with Cons show ?case by (auto simp: image_iff)
qed

lemma entries_map_assign: "set (map_assign k v t) \<subseteq> insert (k, v) (set t)"
  by (induction t) auto

lemma push_values_returns:
  "push_values bits soln gid n cs acc = Inr vals \<Longrightarrow>
   vals = acc @ map (\<lambda>c. soln ! ((gid * n + c) mod 2 ^ bits)) cs \<and>
   (\<forall>c\<in>set cs. (gid * n + c) mod 2 ^ bits < length soln)"
proof (induction cs arbitrary: acc)
  case Nil
  then show ?case by simp
next
  case (Cons c cs)
  from Cons.prems have inside: "(gid * n + c) mod 2 ^ bits < length soln"
    and rest: "push_values bits soln gid n cs (acc @ [soln ! ((gid * n + c) mod 2 ^ bits)])
               = Inr vals"
    by (simp_all add: soln_index_def split: if_splits)
  from Cons.IH [OF rest] inside show ?case by simp
qed

lemma visit_nodes_step:
  assumes "visit_nodes m soln n (gid # ids) t = Inr t'"
  shows "visit_nodes m soln n ids
           (map_assign (point m gid) (snd (node_entry m soln n gid)) t) = Inr t'
         \<and> addressable m soln n gid"
proof -
  from assms obtain vals where
    pv: "push_values (index_bits m) soln gid n [0..<n] [] = Inr vals" and
    rest: "visit_nodes m soln n ids (map_assign (point m gid) vals t) = Inr t'"
    by (auto split: sum.splits)
  from push_values_returns [OF pv]
  have "vals = snd (node_entry m soln n gid)" and "addressable m soln n gid"
    by (simp_all add: node_entry_def addressable_def)
  with rest show ?thesis by simp
qed

lemma visit_nodes_keys:
  "visit_nodes m soln n ids t = Inr t' \<Longrightarrow> fst ` set t' = fst ` set t \<union> point m ` set ids"
proof (induction ids arbitrary: t)
  case Nil
  then show ?case by simp
next
  case (Cons gid ids)
  from Cons.IH [OF visit_nodes_step [OF Cons.prems, THEN conjunct1]] show ?case
    by (simp add: keys_map_assign)
qed

lemma visit_nodes_sorted:
  "visit_nodes m soln n ids t = Inr t' \<Longrightarrow> sorted_wrt (<) (map fst t) \<Longrightarrow>
   sorted_wrt (<) (map fst t')"
proof (induction ids arbitrary: t)
  case Nil
  then show ?case by simp
next
  case (Cons gid ids)
  from Cons.IH [OF visit_nodes_step [OF Cons.prems(1), THEN conjunct1]] Cons.prems(2) show ?case
    by (simp add: sorted_map_assign)
qed

lemma visit_nodes_entries:
  "visit_nodes m soln n ids t = Inr t' \<Longrightarrow>
   set t' \<subseteq> set t \<union> node_entry m soln n ` {gid \<in> set ids. addressable m soln n gid}"
proof (induction ids arbitrary: t)
  case Nil
  then show ?case by simp
next
  case (Cons gid ids)
  from visit_nodes_step [OF Cons.prems]
  have rest: "visit_nodes m soln n ids
                (map_assign (point m gid) (snd (node_entry m soln n gid)) t) = Inr t'"
    and inside: "addressable m soln n gid"
    by simp_all
  have "set (map_assign (point m gid) (snd (node_entry m soln n gid)) t)
          \<subseteq> insert (node_entry m soln n gid) (set t)"
    using entries_map_assign [of "point m gid" "snd (node_entry m soln n gid)" t]
    by (simp add: node_entry_def)
  with Cons.IH [OF rest] inside show ?case
    by auto
qed

lemma node_ids_simps:
  "node_ids [] = {}"
  "node_ids (el # els) = set (nodes el) \<union> node_ids els"
  by (simp_all add: node_ids_def)

lemma visit_elems_step:
  assumes "visit_elems m soln n (el # els) t = Inr t'"
  shows "\<exists>t1. visit_nodes m soln n (nodes el) t = Inr t1 \<and> visit_elems m soln n els t1 = Inr t'"
  using assms by (auto split: sum.splits)

lemma visit_elems_keys:
  "visit_elems m soln n els t = Inr t' \<Longrightarrow> fst ` set t' = fst ` set t \<union> point m ` node_ids els"
proof (induction els arbitrary: t)
  case Nil
  then show ?case by (simp add: node_ids_simps)
next
  case (Cons el els)
  from visit_elems_step [OF Cons.prems] obtain t1 where
    one: "visit_nodes m soln n (nodes el) t = Inr t1" and
    rest: "visit_elems m soln n els t1 = Inr t'"
    by blast
  from Cons.IH [OF rest] visit_nodes_keys [OF one] show ?case
    by (simp add: node_ids_simps image_Un Un_assoc)
qed

lemma visit_elems_sorted:
  "visit_elems m soln n els t = Inr t' \<Longrightarrow> sorted_wrt (<) (map fst t) \<Longrightarrow>
   sorted_wrt (<) (map fst t')"
proof (induction els arbitrary: t)
  case Nil
  then show ?case by simp
next
  case (Cons el els)
  from visit_elems_step [OF Cons.prems(1)] obtain t1 where
    one: "visit_nodes m soln n (nodes el) t = Inr t1" and
    rest: "visit_elems m soln n els t1 = Inr t'"
    by blast
  from Cons.IH [OF rest visit_nodes_sorted [OF one Cons.prems(2)]] show ?case .
qed

lemma visit_elems_entries:
  "visit_elems m soln n els t = Inr t' \<Longrightarrow>
   set t' \<subseteq> set t \<union> node_entry m soln n ` {gid \<in> node_ids els. addressable m soln n gid}"
proof (induction els arbitrary: t)
  case Nil
  then show ?case by simp
next
  case (Cons el els)
  from visit_elems_step [OF Cons.prems] obtain t1 where
    one: "visit_nodes m soln n (nodes el) t = Inr t1" and
    rest: "visit_elems m soln n els t1 = Inr t'"
    by blast
  from Cons.IH [OF rest] visit_nodes_entries [OF one] show ?case
    by (auto simp: node_ids_simps)
qed

subsection \<open>The plot command\<close>

lemma join_with_Cons: "join_with sep (x # xs) = x @ concat (map (\<lambda>y. sep @ y) xs)"
  by (induction xs arbitrary: x) auto

lemma plot_rest_clauses:
  "plot_rest dfn names is =
   concat (map (\<lambda>i. ('', '' @ backslash @ newline) @ trace_reference dfn (i + 2) (names ! i)) is)"
  by (induction "is") (simp_all add: trace_reference_def)

lemma show_nat_2: "show_nat (Suc (Suc 0)) = ''2''"
  by (simp add: show_nat.simps digit_char_def)

lemma plot_command_spec:
  assumes "names \<noteq> []"
  shows "plot_command limits dfn names = Inr (plot_spec limits dfn names)"
proof -
  from assms have len: "0 < length names" by simp
  then have upt: "[0..<length names] = 0 # [1..<length names]"
    by (simp add: upt_conv_Cons)
  have rest: "(if length names > 1 then plot_rest dfn names [1..<length names] else '''')
              = plot_rest dfn names [1..<length names]"
    by simp
  show ?thesis
    unfolding plot_command_def plot_first_def plot_spec_def upt
    using len
    by (simp add: rest plot_rest_clauses join_with_Cons trace_reference_def show_nat_2 comp_def
        del: upt_Suc)
qed

lemma plot_command_empty: "plot_command limits dfn [] = Inl UndefinedRead"
  by (simp add: plot_command_def plot_first_def)

subsection \<open>What a call that returns has done\<close>

lemma files_after_export:
  "files (put_file (fname @ ''_data'') rows
           (open_stream (fname @ ''_data'') (put_file fname script (open_stream fname st))))
     (fname @ ''_data'') = Some rows"
  "files (put_file (fname @ ''_data'') rows
           (open_stream (fname @ ''_data'') (put_file fname script (open_stream fname st))))
     fname = Some script"
  by (simp_all add: put_file_def open_stream_def)

lemma write_solution_returns:
  assumes "processor_id m = 0"
    and "fst (write_solution fmt can_open m fname soln names st) = None"
  shows "\<exists>sol nms x_min x_max xtics cnt plot node_map.
           soln = Some sol \<and> names = Some nms \<and> mesh_dimension m = 1 \<and>
           can_open fname \<and> can_open (fname @ ''_data'') \<and>
           scan_elems fmt m (0, 0, '''', 0) (active_elements m) = Inr (x_min, x_max, xtics, cnt) \<and>
           plot_command (axes_limits st) (fname @ ''_data'') nms = Inr plot \<and>
           visit_elems m sol (length nms) (active_elements m) [] = Inr node_map \<and>
           snd (write_solution fmt can_open m fname soln names st) =
             put_file (fname @ ''_data'') (data_rows fmt node_map)
               (open_stream (fname @ ''_data'')
                 (put_file fname
                    (script_header fname (title st) @ xrange_directive fmt x_min x_max
                     @ grid_directives (grid st) xtics @ png_directives (png_output st) fname
                     @ plot)
                    (open_stream fname st)))"
  using assms
  by (auto simp: write_solution_def Let_def libmesh_assert_def libmesh_assert_equal_to_def
      split: if_splits option.splits sum.splits prod.splits)

subsection \<open>Evaluating the worked example\<close>

lemma show_whole_samples:
  "show_whole 0 = ''0''" "show_whole 1 = ''1''" "show_whole 2 = ''2''"
  "show_whole 3 = ''3''" "show_whole 4 = ''4''" "show_whole 9 = ''9''"
  by (simp_all add: show_whole_def show_nat.simps digit_char_def)

lemmas example_defs =
  example_mesh_def example_elements_def example_format_def example_state_def every_path_def

lemmas export_defs =
  write_nodal_data_def write_solution_def Let_def libmesh_assert_def
  libmesh_assert_equal_to_def soln_index_def scan_elem_def get_node_def plot_command_def
  plot_first_def open_stream_def put_file_def data_rows_def data_row_def
  xrange_directive_def grid_directives_def png_directives_def

lemma example_returns:
  "fst (write_nodal_data example_format every_path example_mesh ''out'' [0, 1, 4, 9] [''u'']
          example_state) = None"
  by (simp add: example_defs export_defs show_whole_samples)

lemma show_whole_more:
  "show_whole 5 = ''5''" "show_whole 6 = ''6''" "show_whole 7 = ''7''" "show_whole 8 = ''8''"
  by (simp_all add: show_whole_def show_nat.simps digit_char_def)

lemma upt_0_2: "[0..<2] = [0, 1]"
  by (simp add: numeral_2_eq_2)

lemma two_var_returns:
  "fst (write_nodal_data example_format every_path example_mesh ''out'' two_var_soln
          [''u'', ''v''] example_state) = None"
  by (simp add: example_defs export_defs show_whole_samples show_whole_more two_var_soln_def
        upt_0_2)

lemma example_on_coordinator: "processor_id example_mesh = 0"
  by (simp add: example_mesh_def)

lemma data_row_fields:
  "data_row fmt kvp =
   concat (map (\<lambda>field. field @ tab) (show_real fmt (fst kvp) # map (show_number fmt) (snd kvp)))
   @ newline"
  by (simp add: data_row_def comp_def)

subsection \<open>Counting the lines of the data file\<close>

lemma count_list_append: "count_list (xs @ ys) c = count_list xs c + count_list ys c"
  by (induction xs) simp_all

lemma count_list_absent: "c \<notin> set xs \<Longrightarrow> count_list xs c = 0"
  by (induction xs) auto

lemma count_newlines_values:
  assumes "\<forall>v. CHR 0x0A \<notin> set (show_number fmt v)"
  shows "count_list (concat (map (\<lambda>v. show_number fmt v @ tab) vals)) (CHR 0x0A) = 0"
  using assms
  by (induction vals) (simp_all add: count_list_append count_list_absent tab_def)

lemma count_newlines_rows:
  assumes "(\<forall>x. CHR 0x0A \<notin> set (show_real fmt x)) \<and> (\<forall>v. CHR 0x0A \<notin> set (show_number fmt v))"
  shows "count_list (concat (map (\<lambda>kvp.
             show_real fmt (fst kvp) @ tab
             @ concat (map (\<lambda>v. show_number fmt v @ tab) (snd kvp))
             @ newline) node_map)) (CHR 0x0A) = length node_map"
proof (induction node_map)
  case Nil
  show ?case by simp
next
  case (Cons kvp rest)
  from assms have "count_list (show_real fmt (fst kvp)) (CHR 0x0A) = 0"
    by (simp add: count_list_absent)
  moreover from assms
  have "count_list (concat (map (\<lambda>v. show_number fmt v @ tab) (snd kvp))) (CHR 0x0A) = 0"
    by (simp add: count_newlines_values)
  ultimately show ?case
    using Cons.IH by (simp add: count_list_append tab_def newline_def)
qed

lemma digit_char_no_newline: "d < 10 \<Longrightarrow> digit_char d \<noteq> CHR 0x0A"
proof -
  assume "d < 10"
  then have "d \<in> {0, 1, 2, 3, 4, 5, 6, 7, 8, 9}" by auto
  then show ?thesis
    by (auto simp: digit_char_def)
qed

lemma show_nat_no_newline: "CHR 0x0A \<notin> set (show_nat n)"
proof (induction n rule: show_nat.induct)
  case (1 n)
  show ?case
  proof (cases "n < 10")
    case True
    then show ?thesis
      using digit_char_no_newline [of n] by (subst show_nat.simps) auto
  next
    case False
    have "n mod 10 < 10" by simp
    from digit_char_no_newline [OF this] "1.IH" [OF False] False show ?thesis
      by (subst show_nat.simps) auto
  qed
qed

lemma show_whole_no_newline: "CHR 0x0A \<notin> set (show_whole x)"
  by (simp add: show_whole_def show_nat_no_newline)

subsection \<open>An index that wraps\<close>

text \<open>
  The index wraps: on \<open>wrap_mesh\<close> a solution vector of four values is enough
  for the export to return, the node \<open>2 ^ 31\<close> being given the values at the
  indices 0 and 1.
\<close>

lemma push_values_wraps:
  "push_values 32 [a, b, c, d] 2147483648 2 [0..<2] [] = Inr [a, b]"
  by (simp add: upt_0_2 soln_index_def)

lemma wrapped_export_returns:
  "visit_elems wrap_mesh [a, b, c, d] 2 (active_elements wrap_mesh) []
     = Inr [(0, [a, b]), (2147483648, [a, b])] \<and>
   fst (write_nodal_data fmt every_path wrap_mesh ''out'' [a, b, c, d] [''u'', ''v'']
          example_state) = None"
  by (simp add: wrap_mesh_def example_state_def every_path_def export_defs upt_0_2)

section \<open>Properties of the exporter\<close>

subsection \<open>The worked example (C1)\<close>

text \<open>
  C1, as the code has it. On the mesh of three unit elements [0,1], [1,2], [2,3]
  with the one variable \<open>u\<close> and the values 0, 1, 4, 9 at the nodes 0..3,
  \<open>write_nodal_data\<close> returns normally; the data file holds the four rows
  \<open>0 1 2 3\<close> against \<open>0 1 4 9\<close> in that order, every field of a row, the last one
  included, being followed by a tab, so that the rows are \<open>0\t0\t\<close>, \<open>1\t1\t\<close>,
  \<open>2\t4\t\<close>, \<open>3\t9\t\<close>; and the script's x-range directive is exactly
  \<open>set xrange [0:3]\<close>, between the header and the plot command.
\<close>

theorem worked_example_export:
  "fst (write_nodal_data example_format every_path example_mesh ''out'' [0, 1, 4, 9] [''u'']
          example_state) = None \<and>
   files (snd (write_nodal_data example_format every_path example_mesh ''out'' [0, 1, 4, 9] [''u'']
          example_state)) ''out_data''
     = Some (''0'' @ tab @ ''0'' @ tab @ newline
             @ ''1'' @ tab @ ''1'' @ tab @ newline
             @ ''2'' @ tab @ ''4'' @ tab @ newline
             @ ''3'' @ tab @ ''9'' @ tab @ newline) \<and>
   files (snd (write_nodal_data example_format every_path example_mesh ''out'' [0, 1, 4, 9] [''u'']
          example_state)) ''out''
     = Some (script_header ''out'' ''solution''
             @ ''set xrange [0:3]'' @ newline
             @ ''plot  '' @ dquote @ ''out_data'' @ dquote
             @ '' using 1:2 title '' @ dquote @ ''u'' @ dquote @ '' with lines'')"
  by (simp add: example_defs export_defs show_whole_samples)

text \<open>
  C1 as stated fails: the data file is not the four rows \<open>0\t0\<close>, \<open>1\t1\<close>,
  \<open>2\t4\<close>, \<open>3\t9\<close>, each ended by a newline.
\<close>

theorem worked_example_rows_counterexample:
  "files (snd (write_nodal_data example_format every_path example_mesh ''out'' [0, 1, 4, 9] [''u'']
          example_state)) ''out_data''
     \<noteq> Some (''0'' @ tab @ ''0'' @ newline
             @ ''1'' @ tab @ ''1'' @ newline
             @ ''2'' @ tab @ ''4'' @ newline
             @ ''3'' @ tab @ ''9'' @ newline)"
  by (simp add: example_defs export_defs show_whole_samples tab_def newline_def)

subsection \<open>Writing without a solution (C2)\<close>

text \<open>
  C2 at a concrete input. \<open>write\<close> on the coordinating process of the example
  mesh does not succeed: it passes two null pointers to \<open>write_solution\<close>, whose
  assertion that a solution is present fails. The call ends with \<open>MissingData\<close>
  and leaves no script behind.
\<close>

theorem write_without_solution_fails:
  "write_op example_format every_path example_mesh ''out'' example_state
     = (Some MissingData, example_state)"
  by (simp add: write_op_def write_solution_def example_mesh_def libmesh_assert_def
        libmesh_assert_equal_to_def)

subsection \<open>An empty sequence of names (C3)\<close>

text \<open>
  C3 at a concrete input. With an empty \<open>names\<close> the assertion passes (the
  pointer is not null), the script is opened and written up to the x-range
  directive, and the plot command then reads \<open>(*names)[0]\<close> outside the vector.
  The call does not end with \<open>MissingData\<close>.
\<close>

theorem empty_names_read_out_of_range:
  "fst (write_nodal_data example_format every_path example_mesh ''out'' [0, 1, 4, 9] []
          example_state) = Some UndefinedRead \<and>
   opened (snd (write_nodal_data example_format every_path example_mesh ''out'' [0, 1, 4, 9] []
          example_state)) = [''out''] \<and>
   files (snd (write_nodal_data example_format every_path example_mesh ''out'' [0, 1, 4, 9] []
          example_state)) ''out''
     = Some (script_header ''out'' ''solution'' @ ''set xrange [0:3]'' @ newline)"
  by (simp add: example_defs export_defs show_whole_samples)

subsection \<open>The lines of the data file (C4)\<close>

text \<open>
  C4, as the code has it. When \<open>write_nodal_data\<close> on the coordinating process
  returns normally, the data file is the concatenation, with no header before
  it, of one line per table entry; a line is the coordinate and then the values
  of the entry, every one of these fields, the last included, followed by a
  tab, and then a newline. Every line has \<open>length names + 1\<close> fields, and the
  values of a line are those of one node \<open>gid\<close> of an active element lying at
  that coordinate, in the order of the variables: the value of the variable of
  index \<open>c\<close> is read from \<open>soln\<close> at the index \<open>gid * length names + c\<close> as the
  unsigned arithmetic of \<open>index_bits m\<close> bits computes it, and every index read
  lies inside \<open>soln\<close>.
\<close>

theorem data_rows_format:
  assumes "processor_id m = 0"
    and "fst (write_nodal_data fmt can_open m fname soln names st) = None"
  shows "\<exists>node_map.
           files (snd (write_nodal_data fmt can_open m fname soln names st)) (fname @ ''_data'')
             = Some (concat (map (\<lambda>kvp.
                       concat (map (\<lambda>field. field @ tab)
                                 (show_real fmt (fst kvp) # map (show_number fmt) (snd kvp)))
                       @ newline) node_map)) \<and>
           (\<forall>kvp\<in>set node_map.
              length (show_real fmt (fst kvp) # map (show_number fmt) (snd kvp)) = length names + 1 \<and>
              (\<exists>gid\<in>node_ids (active_elements m).
                 fst kvp = point m gid \<and>
                 snd kvp = map (\<lambda>c. soln ! ((gid * length names + c) mod 2 ^ index_bits m))
                             [0..<length names] \<and>
                 (\<forall>c<length names.
                    (gid * length names + c) mod 2 ^ index_bits m < length soln)))"
proof -
  from write_solution_returns [OF assms [unfolded write_nodal_data_def]]
  obtain script node_map where
    tbl: "visit_elems m soln (length names) (active_elements m) [] = Inr node_map" and
    st': "snd (write_nodal_data fmt can_open m fname soln names st) =
            put_file (fname @ ''_data'') (data_rows fmt node_map)
              (open_stream (fname @ ''_data'') (put_file fname script (open_stream fname st)))"
    unfolding write_nodal_data_def by auto
  have content:
    "files (snd (write_nodal_data fmt can_open m fname soln names st)) (fname @ ''_data'')
       = Some (concat (map (\<lambda>kvp.
                 concat (map (\<lambda>field. field @ tab)
                           (show_real fmt (fst kvp) # map (show_number fmt) (snd kvp)))
                 @ newline) node_map))"
  proof -
    have "data_row fmt = (\<lambda>kvp.
            concat (map (\<lambda>field. field @ tab)
                      (show_real fmt (fst kvp) # map (show_number fmt) (snd kvp)))
            @ newline)"
      by (rule ext) (rule data_row_fields)
    then show ?thesis
      unfolding st' files_after_export data_rows_def by simp
  qed
  have entries:
    "set node_map \<subseteq> node_entry m soln (length names) `
       {gid \<in> node_ids (active_elements m). addressable m soln (length names) gid}"
    using visit_elems_entries [OF tbl] by simp
  have "\<forall>kvp\<in>set node_map.
          length (show_real fmt (fst kvp) # map (show_number fmt) (snd kvp)) = length names + 1 \<and>
          (\<exists>gid\<in>node_ids (active_elements m).
             fst kvp = point m gid \<and>
             snd kvp = map (\<lambda>c. soln ! ((gid * length names + c) mod 2 ^ index_bits m))
                         [0..<length names] \<and>
             (\<forall>c<length names. (gid * length names + c) mod 2 ^ index_bits m < length soln))"
  proof
    fix kvp
    assume "kvp \<in> set node_map"
    with entries obtain gid where
      gid: "gid \<in> node_ids (active_elements m)" "addressable m soln (length names) gid" and
      kvp: "kvp = node_entry m soln (length names) gid"
      by auto
    from kvp have "length (show_real fmt (fst kvp) # map (show_number fmt) (snd kvp))
                   = length names + 1"
      by (simp add: node_entry_def)
    moreover from gid kvp
    have "\<exists>gid\<in>node_ids (active_elements m).
            fst kvp = point m gid \<and>
            snd kvp = map (\<lambda>c. soln ! ((gid * length names + c) mod 2 ^ index_bits m))
                        [0..<length names] \<and>
            (\<forall>c<length names. (gid * length names + c) mod 2 ^ index_bits m < length soln)"
      by (auto simp: node_entry_def addressable_def)
    ultimately show
      "length (show_real fmt (fst kvp) # map (show_number fmt) (snd kvp)) = length names + 1 \<and>
       (\<exists>gid\<in>node_ids (active_elements m).
          fst kvp = point m gid \<and>
          snd kvp = map (\<lambda>c. soln ! ((gid * length names + c) mod 2 ^ index_bits m))
                      [0..<length names] \<and>
          (\<forall>c<length names. (gid * length names + c) mod 2 ^ index_bits m < length soln))"
      by blast
  qed
  with content show ?thesis by blast
qed

text \<open>C4 on the example mesh with the two variables \<open>u\<close> and \<open>v\<close>.\<close>

theorem data_rows_format_witness:
  "processor_id example_mesh = 0 \<and>
   fst (write_nodal_data example_format every_path example_mesh ''out'' two_var_soln
          [''u'', ''v''] example_state) = None \<and>
   (\<exists>node_map.
      files (snd (write_nodal_data example_format every_path example_mesh ''out'' two_var_soln
                    [''u'', ''v''] example_state)) (''out'' @ ''_data'')
        = Some (concat (map (\<lambda>kvp.
                  concat (map (\<lambda>field. field @ tab)
                            (show_real example_format (fst kvp)
                             # map (show_number example_format) (snd kvp)))
                  @ newline) node_map)) \<and>
      (\<forall>kvp\<in>set node_map.
         length (show_real example_format (fst kvp) # map (show_number example_format) (snd kvp))
           = length [''u'', ''v''] + 1 \<and>
         (\<exists>gid\<in>node_ids (active_elements example_mesh).
            fst kvp = point example_mesh gid \<and>
            snd kvp = map (\<lambda>c. two_var_soln
                                 ! ((gid * length [''u'', ''v''] + c)
                                    mod 2 ^ index_bits example_mesh))
                        [0..<length [''u'', ''v'']] \<and>
            (\<forall>c<length [''u'', ''v''].
               (gid * length [''u'', ''v''] + c) mod 2 ^ index_bits example_mesh
                 < length two_var_soln))))"
  using data_rows_format [OF example_on_coordinator two_var_returns]
    example_on_coordinator two_var_returns
  by blast

text \<open>
  C4 as stated fails: with two variables the table built by the code is the one
  shown, the call returns normally, and the data file is not made of the
  tab-separated lines of that table (each line of the file ends in a tab).
\<close>

theorem data_rows_tab_separated_counterexample:
  "visit_elems example_mesh two_var_soln 2 (active_elements example_mesh) []
     = Inr [(0, [0, 5]), (1, [1, 6]), (2, [4, 7]), (3, [9, 8])] \<and>
   fst (write_nodal_data example_format every_path example_mesh ''out'' two_var_soln
          [''u'', ''v''] example_state) = None \<and>
   files (snd (write_nodal_data example_format every_path example_mesh ''out'' two_var_soln
          [''u'', ''v''] example_state)) ''out_data''
     \<noteq> Some (concat (map (tsv_row example_format)
                      [(0, [0, 5]), (1, [1, 6]), (2, [4, 7]), (3, [9, 8])]))"
  by (simp add: example_defs export_defs show_whole_samples show_whole_more two_var_soln_def
        tsv_row_def tab_def newline_def show_nat.simps digit_char_def upt_0_2)

subsection \<open>One row per coordinate, in ascending order (C5)\<close>

text \<open>
  C5. When \<open>write_nodal_data\<close> on the coordinating process returns normally, the
  data file is made of rows, each one written as a coordinate, a tab, the
  values each followed by a tab, and a newline. The coordinates of the rows, in
  the order of the file, are the distinct coordinates of the nodes of the
  active elements in strictly ascending order: one row per distinct coordinate,
  however many elements share a node. When neither a printed coordinate nor a
  printed value contains a newline, the number of newlines in the file, that is
  the number of its lines, is the number of distinct node coordinates.
\<close>

theorem data_rows_distinct_ascending:
  assumes "processor_id m = 0"
    and "fst (write_nodal_data fmt can_open m fname soln names st) = None"
  shows "\<exists>node_map body.
           files (snd (write_nodal_data fmt can_open m fname soln names st)) (fname @ ''_data'')
             = Some body \<and>
           body = concat (map (\<lambda>kvp.
                     show_real fmt (fst kvp) @ tab
                     @ concat (map (\<lambda>v. show_number fmt v @ tab) (snd kvp))
                     @ newline) node_map) \<and>
           map fst node_map = sorted_list_of_set (point m ` node_ids (active_elements m)) \<and>
           sorted_wrt (<) (map fst node_map) \<and>
           set (map fst node_map) = point m ` node_ids (active_elements m) \<and>
           length node_map = card (point m ` node_ids (active_elements m)) \<and>
           ((\<forall>x. CHR 0x0A \<notin> set (show_real fmt x)) \<and> (\<forall>v. CHR 0x0A \<notin> set (show_number fmt v))
            \<longrightarrow> count_list body (CHR 0x0A) = card (point m ` node_ids (active_elements m)))"
proof -
  from write_solution_returns [OF assms [unfolded write_nodal_data_def]]
  obtain script node_map where
    tbl: "visit_elems m soln (length names) (active_elements m) [] = Inr node_map" and
    st': "snd (write_nodal_data fmt can_open m fname soln names st) =
            put_file (fname @ ''_data'') (data_rows fmt node_map)
              (open_stream (fname @ ''_data'') (put_file fname script (open_stream fname st)))"
    unfolding write_nodal_data_def by auto
  define body where "body = concat (map (\<lambda>kvp.
                     show_real fmt (fst kvp) @ tab
                     @ concat (map (\<lambda>v. show_number fmt v @ tab) (snd kvp))
                     @ newline) node_map)"
  have asc: "sorted_wrt (<) (map fst node_map)"
    using visit_elems_sorted [OF tbl] by simp
  have keys: "set (map fst node_map) = point m ` node_ids (active_elements m)"
    using visit_elems_keys [OF tbl] by simp
  from asc have sd: "sorted (map fst node_map)" "distinct (map fst node_map)"
    by (simp_all add: strict_sorted_iff)
  then have "sorted_list_of_set (set (map fst node_map)) = map fst node_map"
    by (rule sorted_list_of_set.idem_if_sorted_distinct)
  with keys have order:
    "map fst node_map = sorted_list_of_set (point m ` node_ids (active_elements m))"
    by simp
  from sd(2) have "card (set (map fst node_map)) = length node_map"
    using distinct_card [of "map fst node_map"] by simp
  with keys have len: "length node_map = card (point m ` node_ids (active_elements m))"
    by simp
  have content:
    "files (snd (write_nodal_data fmt can_open m fname soln names st)) (fname @ ''_data'')
       = Some body"
  proof -
    have "data_row fmt = (\<lambda>kvp.
            show_real fmt (fst kvp) @ tab
            @ concat (map (\<lambda>v. show_number fmt v @ tab) (snd kvp))
            @ newline)"
      by (rule ext) (simp add: data_row_def)
    then show ?thesis
      unfolding st' body_def files_after_export data_rows_def by simp
  qed
  have lines:
    "(\<forall>x. CHR 0x0A \<notin> set (show_real fmt x)) \<and> (\<forall>v. CHR 0x0A \<notin> set (show_number fmt v))
     \<longrightarrow> count_list body (CHR 0x0A) = card (point m ` node_ids (active_elements m))"
  proof
    assume clean:
      "(\<forall>x. CHR 0x0A \<notin> set (show_real fmt x)) \<and> (\<forall>v. CHR 0x0A \<notin> set (show_number fmt v))"
    then have "count_list body (CHR 0x0A) = length node_map"
      unfolding body_def by (rule count_newlines_rows)
    with len show "count_list body (CHR 0x0A) = card (point m ` node_ids (active_elements m))"
      by simp
  qed
  from content order asc keys len lines show ?thesis
    unfolding body_def by blast
qed

text \<open>
  C5 on the worked example, whose two inner nodes are shared: the printed
  numbers hold digits only.
\<close>

theorem data_rows_distinct_ascending_witness:
  "processor_id example_mesh = 0 \<and>
   fst (write_nodal_data example_format every_path example_mesh ''out'' [0, 1, 4, 9] [''u'']
          example_state) = None \<and>
   (\<forall>x. CHR 0x0A \<notin> set (show_real example_format x)) \<and>
   (\<forall>v. CHR 0x0A \<notin> set (show_number example_format v)) \<and>
   (\<exists>node_map body.
      files (snd (write_nodal_data example_format every_path example_mesh ''out'' [0, 1, 4, 9]
                    [''u''] example_state)) (''out'' @ ''_data'')
        = Some body \<and>
      body = concat (map (\<lambda>kvp.
                show_real example_format (fst kvp) @ tab
                @ concat (map (\<lambda>v. show_number example_format v @ tab) (snd kvp))
                @ newline) node_map) \<and>
      map fst node_map
        = sorted_list_of_set (point example_mesh ` node_ids (active_elements example_mesh)) \<and>
      sorted_wrt (<) (map fst node_map) \<and>
      set (map fst node_map) = point example_mesh ` node_ids (active_elements example_mesh) \<and>
      length node_map = card (point example_mesh ` node_ids (active_elements example_mesh)) \<and>
      count_list body (CHR 0x0A)
        = card (point example_mesh ` node_ids (active_elements example_mesh)))"
proof -
  have clean: "\<forall>x. CHR 0x0A \<notin> set (show_real example_format x)"
    "\<forall>v. CHR 0x0A \<notin> set (show_number example_format v)"
    by (simp_all add: example_format_def show_whole_no_newline)
  from data_rows_distinct_ascending [OF example_on_coordinator example_returns]
    example_on_coordinator example_returns clean
  show ?thesis by blast
qed

subsection \<open>The plot command follows the names (C6)\<close>

text \<open>
  C6. When \<open>write_nodal_data\<close> with a non-empty \<open>names\<close> returns normally on the
  coordinating process, the script ends with the plot command, which holds one
  trace reference per name, in the order of \<open>names\<close>: the reference of index
  \<open>i\<close> (from 0) reads column \<open>i + 2\<close> of the data file and is labelled
  \<open>names ! i\<close>.
\<close>

theorem plot_traces_follow_names:
  assumes "processor_id m = 0"
    and "names \<noteq> []"
    and "fst (write_nodal_data fmt can_open m fname soln names st) = None"
  shows "\<exists>x_min x_max xtics.
           files (snd (write_nodal_data fmt can_open m fname soln names st)) fname
             = Some (script_header fname (title st) @ xrange_directive fmt x_min x_max
                     @ grid_directives (grid st) xtics @ png_directives (png_output st) fname
                     @ ''plot '' @ axes_limits st @ '' ''
                     @ join_with ('', '' @ backslash @ newline)
                         (map (\<lambda>i. trace_reference (fname @ ''_data'') (i + 2) (names ! i))
                            [0..<length names]))"
proof -
  from write_solution_returns [OF assms(1) assms(3) [unfolded write_nodal_data_def]]
  obtain x_min x_max xtics plot node_map where
    plot: "plot_command (axes_limits st) (fname @ ''_data'') names = Inr plot" and
    st': "snd (write_nodal_data fmt can_open m fname soln names st) =
            put_file (fname @ ''_data'') (data_rows fmt node_map)
              (open_stream (fname @ ''_data'')
                (put_file fname
                   (script_header fname (title st) @ xrange_directive fmt x_min x_max
                    @ grid_directives (grid st) xtics @ png_directives (png_output st) fname
                    @ plot)
                   (open_stream fname st)))"
    unfolding write_nodal_data_def by auto
  from plot plot_command_spec [OF assms(2), of "axes_limits st" "fname @ ''_data''"]
  have "plot = plot_spec (axes_limits st) (fname @ ''_data'') names"
    by simp
  then have "files (snd (write_nodal_data fmt can_open m fname soln names st)) fname
             = Some (script_header fname (title st) @ xrange_directive fmt x_min x_max
                     @ grid_directives (grid st) xtics @ png_directives (png_output st) fname
                     @ ''plot '' @ axes_limits st @ '' ''
                     @ join_with ('', '' @ backslash @ newline)
                         (map (\<lambda>i. trace_reference (fname @ ''_data'') (i + 2) (names ! i))
                            [0..<length names]))"
    unfolding st' files_after_export by (simp add: plot_spec_def)
  then show ?thesis by blast
qed

text \<open>C6 on the example mesh with the two variables \<open>u\<close> and \<open>v\<close>.\<close>

theorem plot_traces_follow_names_witness:
  "processor_id example_mesh = 0 \<and> [''u'', ''v''] \<noteq> [] \<and>
   fst (write_nodal_data example_format every_path example_mesh ''out'' two_var_soln
          [''u'', ''v''] example_state) = None \<and>
   (\<exists>x_min x_max xtics.
      files (snd (write_nodal_data example_format every_path example_mesh ''out'' two_var_soln
                    [''u'', ''v''] example_state)) ''out''
        = Some (script_header ''out'' (title example_state)
                @ xrange_directive example_format x_min x_max
                @ grid_directives (grid example_state) xtics
                @ png_directives (png_output example_state) ''out''
                @ ''plot '' @ axes_limits example_state @ '' ''
                @ join_with ('', '' @ backslash @ newline)
                    (map (\<lambda>i. trace_reference (''out'' @ ''_data'') (i + 2) ([''u'', ''v''] ! i))
                       [0..<length [''u'', ''v'']])))"
proof -
  have names: "[''u'', ''v''] \<noteq> []" by simp
  from plot_traces_follow_names [OF example_on_coordinator names two_var_returns]
    example_on_coordinator names two_var_returns
  show ?thesis by blast
qed

subsection \<open>Precondition failures come before any output (C7)\<close>

text \<open>
  C7. On the coordinating process, when the mesh dimension is not 1 or the
  solution or the names pointer is null, the call fails (with
  \<open>UnsupportedGeometry\<close> or \<open>MissingData\<close>) and the state is the one it started
  from: no stream was constructed and no file created or changed.
\<close>

theorem precondition_failure_before_io:
  assumes "processor_id m = 0"
    and "mesh_dimension m \<noteq> 1 \<or> soln = None \<or> names = None"
  shows "snd (write_solution fmt can_open m fname soln names st) = st \<and>
         (fst (write_solution fmt can_open m fname soln names st) = Some UnsupportedGeometry \<or>
          fst (write_solution fmt can_open m fname soln names st) = Some MissingData)"
  using assms
  by (auto simp: write_solution_def Let_def libmesh_assert_def libmesh_assert_equal_to_def)

text \<open>C7 on the example mesh declared two-dimensional.\<close>

theorem precondition_failure_before_io_witness:
  "processor_id (example_mesh\<lparr>mesh_dimension := 2\<rparr>) = 0 \<and>
   mesh_dimension (example_mesh\<lparr>mesh_dimension := 2\<rparr>) \<noteq> 1 \<and>
   snd (write_solution example_format every_path (example_mesh\<lparr>mesh_dimension := 2\<rparr>) ''out''
          (Some [0, 1, 4, 9]) (Some [''u'']) example_state) = example_state \<and>
   fst (write_solution example_format every_path (example_mesh\<lparr>mesh_dimension := 2\<rparr>) ''out''
          (Some [0, 1, 4, 9]) (Some [''u'']) example_state) = Some UnsupportedGeometry"
  using precondition_failure_before_io
    [of "example_mesh\<lparr>mesh_dimension := 2\<rparr>" "Some [0, 1, 4, 9]" "Some [''u'']"
        example_format every_path "''out''" example_state]
  by (simp add: example_mesh_def write_solution_def libmesh_assert_equal_to_def)

subsection \<open>A mesh without active elements (C8)\<close>

text \<open>
  C8. For a one-dimensional mesh with no active element, an export on the
  coordinating process with a non-empty \<open>names\<close> and files that open returns
  normally; both bounds keep their initial value 0, so that, the stream
  printing 0 as \<open>0\<close>, the x-range directive of the script is
  \<open>set xrange [0:0]\<close>. The data file is empty.
\<close>

theorem empty_mesh_range:
  assumes "processor_id m = 0" and "mesh_dimension m = 1" and "active_elements m = []"
    and "names \<noteq> []" and "can_open fname" and "can_open (fname @ ''_data'')"
    and "show_real fmt 0 = ''0''"
  shows "fst (write_nodal_data fmt can_open m fname soln names st) = None \<and>
         files (snd (write_nodal_data fmt can_open m fname soln names st)) fname
           = Some (script_header fname (title st)
                   @ ''set xrange [0:0]'' @ newline
                   @ grid_directives (grid st) '''' @ png_directives (png_output st) fname
                   @ plot_spec (axes_limits st) (fname @ ''_data'') names) \<and>
         files (snd (write_nodal_data fmt can_open m fname soln names st)) (fname @ ''_data'')
           = Some ''''"
  using assms plot_command_spec [OF assms(4), of "axes_limits st" "fname @ ''_data''"]
  by (simp add: write_nodal_data_def write_solution_def Let_def xrange_directive_def
        open_stream_def put_file_def data_rows_def libmesh_assert_def
        libmesh_assert_equal_to_def)

text \<open>C8 on the mesh without elements, one variable \<open>u\<close>.\<close>

theorem empty_mesh_range_witness:
  "processor_id empty_mesh = 0 \<and> mesh_dimension empty_mesh = 1 \<and>
   active_elements empty_mesh = [] \<and> [''u''] \<noteq> [] \<and> every_path ''out'' \<and>
   every_path (''out'' @ ''_data'') \<and> show_real example_format 0 = ''0'' \<and>
   fst (write_nodal_data example_format every_path empty_mesh ''out'' [] [''u'']
          example_state) = None \<and>
   files (snd (write_nodal_data example_format every_path empty_mesh ''out'' [] [''u'']
          example_state)) ''out''
     = Some (script_header ''out'' (title example_state)
             @ ''set xrange [0:0]'' @ newline
             @ grid_directives (grid example_state) ''''
             @ png_directives (png_output example_state) ''out''
             @ plot_spec (axes_limits example_state) (''out'' @ ''_data'') [''u'']) \<and>
   files (snd (write_nodal_data example_format every_path empty_mesh ''out'' [] [''u'']
          example_state)) (''out'' @ ''_data'') = Some ''''"
proof -
  have a: "processor_id empty_mesh = 0" "mesh_dimension empty_mesh = 1"
    "active_elements empty_mesh = []"
    by (simp_all add: empty_mesh_def)
  have b: "[''u''] \<noteq> []" "every_path ''out''" "every_path (''out'' @ ''_data'')"
    by (simp_all add: every_path_def)
  have c: "show_real example_format 0 = ''0''"
    by (simp add: example_format_def show_whole_samples)
  from empty_mesh_range [OF a b c, of "[]" example_state] a b c
  show ?thesis by blast
qed

subsection \<open>Exporting twice (C9)\<close>

text \<open>
  C9. Two successive invocations of the export with the same mesh, solution,
  names, path and exporter members: the second one, started in the state the
  first one left, ends the same way and leaves every file, the script and the
  data file among them, with the content the first one gave it.
\<close>

theorem export_twice_same_artifacts:
  "fst (write_solution fmt can_open m fname soln names
          (snd (write_solution fmt can_open m fname soln names st)))
     = fst (write_solution fmt can_open m fname soln names st) \<and>
   files (snd (write_solution fmt can_open m fname soln names
          (snd (write_solution fmt can_open m fname soln names st))))
     = files (snd (write_solution fmt can_open m fname soln names st))"
  by (auto simp: write_solution_def Let_def open_stream_def put_file_def
        libmesh_assert_def libmesh_assert_equal_to_def
      split: option.splits sum.splits prod.splits)

subsection \<open>Processes other than the coordinating one (C10)\<close>

text \<open>
  C10. On a process whose id is not 0 the call returns normally with the state
  it was given: no stream is constructed, no file is created or changed, and no
  member of the exporter changes. (The count \<open>n_active_elem\<close> is read before the
  test and not used.)
\<close>

theorem other_processors_do_nothing:
  "processor_id m \<noteq> 0 \<Longrightarrow> write_solution fmt can_open m fname soln names st = (None, st)"
  by (simp add: write_solution_def)

text \<open>C10 on the example mesh seen from process 1.\<close>

theorem other_processors_do_nothing_witness:
  "processor_id (example_mesh\<lparr>processor_id := 1\<rparr>) \<noteq> 0 \<and>
   write_solution example_format every_path (example_mesh\<lparr>processor_id := 1\<rparr>) ''out''
     (Some [0, 1, 4, 9]) (Some [''u'']) example_state = (None, example_state)"
  using other_processors_do_nothing
    [of "example_mesh\<lparr>processor_id := 1\<rparr>" example_format every_path "''out''"
        "Some [0, 1, 4, 9]" "Some [''u'']" example_state]
  by simp

end
